theory Spec2Isabelle
  imports Main "HOL-Library.AList" "HOL-Library.Char_ord"
begin

section \<open>Expiration status: the classifier and the counting views\<close>

text \<open>
  Every view computes
  \<^verbatim>\<open>days = differenceInDays(parseISO(cert.expirationDate), new Date())\<close>
  with the date-fns library and then compares \<open>days\<close> with fixed cut points. The library
  call and the clock are outside the repository, so the models below take the function
  \<open>daysUntil\<close> from an expiration-date string to that integer as an argument: it stands
  for the library call at the instant of the evaluation pass. The result is a whole
  number of days, truncated towards zero, negative once the date has passed.
\<close>

datatype Status = Expired | Critical | Warning | Soon | Active

text \<open>
  \<^verbatim>\<open>getStatusInfo\<close> of \<^verbatim>\<open>components/certification-card.tsx\<close>, the field
  \<^verbatim>\<open>status\<close> of the object it returns (the other fields are label, icon and colour).
\<close>

definition getStatusInfo :: "int \<Rightarrow> Status" where
  "getStatusInfo daysUntilExpiration =
     (if daysUntilExpiration < 0 then Expired
      else if daysUntilExpiration \<le> 30 then Critical
      else if daysUntilExpiration \<le> 60 then Warning
      else if daysUntilExpiration \<le> 90 then Soon
      else Active)"

text \<open>
  Modelled from the spec: the type \<^verbatim>\<open>Certification\<close>, whose declaration in
  \<^verbatim>\<open>@shared/schema\<close> is not among the sources. The fields are those the data model
  lists and the code reads; dates are \<^verbatim>\<open>YYYY-MM-DD\<close> strings; the three optional
  fields are options, \<open>None\<close> for an absent key.
\<close>

record Certification =
  id_cert :: string
  userId :: string
  name :: string
  issuingOrganization :: string
  credentialId :: "string option"
  issueDate :: string
  expirationDate :: string
  certificateUrl :: "string option"
  notes_cert :: "string option"

subsection \<open>The renewals page: \<^verbatim>\<open>categorizedCerts\<close>\<close>

record CategorizedCerts =
  expired_cc :: "Certification list"
  critical_cc :: "Certification list"
  warning_cc :: "Certification list"
  upcoming_cc :: "Certification list"

definition categorizedCerts :: "(string \<Rightarrow> int) \<Rightarrow> Certification list \<Rightarrow> CategorizedCerts" where
  "categorizedCerts daysUntil certifications =
     \<lparr> expired_cc = filter (\<lambda>c. let days = daysUntil (expirationDate c) in days < 0) certifications,
       critical_cc = filter (\<lambda>c. let days = daysUntil (expirationDate c) in days \<ge> 0 \<and> days \<le> 30) certifications,
       warning_cc = filter (\<lambda>c. let days = daysUntil (expirationDate c) in days > 30 \<and> days \<le> 60) certifications,
       upcoming_cc = filter (\<lambda>c. let days = daysUntil (expirationDate c) in days > 60 \<and> days \<le> 90) certifications \<rparr>"

subsection \<open>The admin expiring page: \<^verbatim>\<open>stats\<close>\<close>

record ExpiringStats =
  within30 :: nat
  within60 :: nat
  within90 :: nat
  expired_es :: nat

definition expiringStats :: "(string \<Rightarrow> int) \<Rightarrow> Certification list \<Rightarrow> ExpiringStats" where
  "expiringStats daysUntil certifications =
     \<lparr> within30 = length (filter (\<lambda>c. let days = daysUntil (expirationDate c) in days > 0 \<and> days \<le> 30) certifications),
       within60 = length (filter (\<lambda>c. let days = daysUntil (expirationDate c) in days > 30 \<and> days \<le> 60) certifications),
       within90 = length (filter (\<lambda>c. let days = daysUntil (expirationDate c) in days > 60 \<and> days \<le> 90) certifications),
       expired_es = length (filter (\<lambda>c. let days = daysUntil (expirationDate c) in days < 0) certifications) \<rparr>"

subsection \<open>The user dashboard: \<^verbatim>\<open>stats\<close>\<close>

record DashboardStats =
  total :: nat
  active_ds :: nat
  expiringSoon :: nat
  expired_ds :: nat

definition dashboardStats :: "(string \<Rightarrow> int) \<Rightarrow> Certification list \<Rightarrow> DashboardStats" where
  "dashboardStats daysUntil certifications =
     \<lparr> total = length certifications,
       active_ds = length (filter (\<lambda>c. let days = daysUntil (expirationDate c) in days > 90) certifications),
       expiringSoon = length (filter (\<lambda>c. let days = daysUntil (expirationDate c) in days > 0 \<and> days \<le> 90) certifications),
       expired_ds = length (filter (\<lambda>c. let days = daysUntil (expirationDate c) in days < 0) certifications) \<rparr>"

subsection \<open>The user's certification page: \<^verbatim>\<open>filteredCertifications\<close>\<close>

datatype StatusFilter = All_f | Active_f | Expiring_f | Expired_f

text \<open>
  \<^verbatim>\<open>String.prototype.toLowerCase\<close> and \<^verbatim>\<open>includes\<close>. A \<open>string\<close> here is a list
  of bytes, and the case mapping is the one of the ASCII letters \<open>A\<close> to \<open>Z\<close> only: on
  text with other cased letters the program lowers those too and the model does not.
  \<open>includes_str s t\<close> holds when \<open>t\<close> occurs in \<open>s\<close> as a contiguous block, in
  particular for the empty \<open>t\<close>.
\<close>

definition toLowerCase :: "string \<Rightarrow> string" where
  "toLowerCase s =
     map (\<lambda>c. if CHR ''A'' \<le> c \<and> c \<le> CHR ''Z'' then char_of (of_char c + (32::nat)) else c) s"

fun isPrefix :: "string \<Rightarrow> string \<Rightarrow> bool" where
  "isPrefix [] s = True"
| "isPrefix (a # t) [] = False"
| "isPrefix (a # t) (b # s) = (a = b \<and> isPrefix t s)"

fun includes_str :: "string \<Rightarrow> string \<Rightarrow> bool" where
  "includes_str [] t = (t = [])"
| "includes_str (a # s) t = (isPrefix t (a # s) \<or> includes_str s t)"

definition matchesSearch :: "string \<Rightarrow> Certification \<Rightarrow> bool" where
  "matchesSearch search cert =
     (includes_str (toLowerCase (name cert)) (toLowerCase search) \<or>
      includes_str (toLowerCase (issuingOrganization cert)) (toLowerCase search) \<or>
      (case credentialId cert of
         None \<Rightarrow> False
       | Some cid \<Rightarrow> includes_str (toLowerCase cid) (toLowerCase search)))"

definition statusMatches :: "StatusFilter \<Rightarrow> int \<Rightarrow> bool" where
  "statusMatches statusFilter days =
     (case statusFilter of
        Active_f \<Rightarrow> days > 90
      | Expiring_f \<Rightarrow> days > 0 \<and> days \<le> 90
      | Expired_f \<Rightarrow> days < 0
      | All_f \<Rightarrow> True)"

definition filteredCertifications ::
  "(string \<Rightarrow> int) \<Rightarrow> string \<Rightarrow> StatusFilter \<Rightarrow> Certification list \<Rightarrow> Certification list" where
  "filteredCertifications daysUntil search statusFilter certifications =
     filter (\<lambda>cert.
        if \<not> matchesSearch search cert then False
        else statusMatches statusFilter (daysUntil (expirationDate cert)))
       certifications"

section \<open>The certification repository\<close>

text \<open>
  \<^verbatim>\<open>client/src/lib/localData.ts\<close> keeps the certifications as JSON text under one
  key of the browser's \<^verbatim>\<open>localStorage\<close>. The state of that key is a \<open>slot\<close>:
  \<open>NoItem\<close> when \<^verbatim>\<open>getItem\<close> answers \<^verbatim>\<open>null\<close> (or the empty string, which
  \<^verbatim>\<open>!raw\<close> treats alike), \<open>Garbage\<close> when it answers text that \<^verbatim>\<open>JSON.parse\<close>
  rejects, and \<open>Item v\<close> when it answers the JSON text of \<open>v\<close>, as the save function
  writes it. Every operation takes the slot and returns the slot it leaves behind.
  A thrown \<^verbatim>\<open>Error(msg)\<close> is the value \<open>Inl (Error msg)\<close>.
\<close>

datatype error = Error string

datatype 'a slot = NoItem | Garbage | Item 'a

definition loadCerts :: "Certification list slot \<Rightarrow> Certification list \<times> Certification list slot" where
  "loadCerts store =
     (case store of
        NoItem \<Rightarrow> ([], Item [])
      | Garbage \<Rightarrow> ([], Garbage)
      | Item certs \<Rightarrow> (certs, Item certs))"

definition saveCerts :: "Certification list \<Rightarrow> Certification list slot" where
  "saveCerts certs = Item certs"

definition getAllCertifications ::
  "Certification list slot \<Rightarrow> Certification list \<times> Certification list slot" where
  "getAllCertifications store = loadCerts store"

text \<open>
  The argument \<^verbatim>\<open>userId?: string | null\<close> is a \<open>string option\<close>, \<open>None\<close> for
  \<^verbatim>\<open>undefined\<close> and \<^verbatim>\<open>null\<close>. The guard \<^verbatim>\<open>!userId\<close> holds for these and for the
  empty string.
\<close>

definition getCertificationsByUser ::
  "Certification list slot \<Rightarrow> string option \<Rightarrow> Certification list \<times> Certification list slot" where
  "getCertificationsByUser store userId_arg =
     (let (certs, store1) = loadCerts store in
      case userId_arg of
        None \<Rightarrow> ([], store1)
      | Some u \<Rightarrow> if u = [] then ([], store1)
                 else (filter (\<lambda>c. userId c = u) certs, store1))"

text \<open>
  \<^verbatim>\<open>Partial<Certification>\<close>: every key may be absent (\<open>None\<close>). A key of an optional
  field may also be present and bound to \<^verbatim>\<open>undefined\<close> (\<open>Some None\<close>); a key of a
  required field, when present, is bound to a string, the type the schema gives it.
\<close>

record PartialCertification =
  id_p :: "string option"
  userId_p :: "string option"
  name_p :: "string option"
  issuingOrganization_p :: "string option"
  credentialId_p :: "string option option"
  issueDate_p :: "string option"
  expirationDate_p :: "string option"
  certificateUrl_p :: "string option option"
  notes_p :: "string option option"

text \<open>
  Reading \<^verbatim>\<open>data.k\<close> for an optional key: \<^verbatim>\<open>undefined\<close> when the key is absent or
  bound to \<^verbatim>\<open>undefined\<close>.
\<close>

definition readOptional :: "string option option \<Rightarrow> string option" where
  "readOptional v = (case v of None \<Rightarrow> None | Some w \<Rightarrow> w)"

text \<open>\<^verbatim>\<open>v || d\<close> on a string that may be undefined: the empty string is falsy too.\<close>

definition orDefault :: "string option \<Rightarrow> string \<Rightarrow> string" where
  "orDefault v d = (case v of None \<Rightarrow> d | Some s \<Rightarrow> if s = [] then d else s)"

text \<open>
  \<^verbatim>\<open>createCertification\<close>. The identifier comes from \<^verbatim>\<open>uuidv4()\<close> and the default
  dates from \<^verbatim>\<open>new Date().toISOString().slice(0, 10)\<close>, read once for each of the two
  date fields; both are outside the repository and are arguments here. The object
  literal has exactly seven keys: \<^verbatim>\<open>certificateUrl\<close> and \<^verbatim>\<open>notes\<close> are not among
  them, whatever \<^verbatim>\<open>data\<close> holds.
\<close>

definition createCertification ::
  "Certification list slot \<Rightarrow> string \<Rightarrow> string \<Rightarrow> string \<Rightarrow> PartialCertification
     \<Rightarrow> Certification \<times> Certification list slot" where
  "createCertification store uuid todayIssue todayExpiration data =
     (let (certs, store1) = loadCerts store;
          cert = \<lparr> id_cert = uuid,
                   userId = orDefault (userId_p data) [],
                   name = orDefault (name_p data) [],
                   issuingOrganization = orDefault (issuingOrganization_p data) [],
                   credentialId = Some (orDefault (readOptional (credentialId_p data)) []),
                   issueDate = orDefault (issueDate_p data) todayIssue,
                   expirationDate = orDefault (expirationDate_p data) todayExpiration,
                   certificateUrl = None,
                   notes_cert = None \<rparr>
      in (cert, saveCerts (certs @ [cert])))"

text \<open>\<^verbatim>\<open>Array.prototype.findIndex\<close>; \<open>None\<close> is the answer \<^verbatim>\<open>-1\<close>.\<close>

fun findIndex :: "('a \<Rightarrow> bool) \<Rightarrow> 'a list \<Rightarrow> nat option" where
  "findIndex P [] = None"
| "findIndex P (x # xs) = (if P x then Some 0 else map_option Suc (findIndex P xs))"

text \<open>The object spread \<^verbatim>\<open>{ ...cert, ...data }\<close>: each key present in \<^verbatim>\<open>data\<close> wins.\<close>

definition spread :: "Certification \<Rightarrow> PartialCertification \<Rightarrow> Certification" where
  "spread cert data =
     \<lparr> id_cert = (case id_p data of None \<Rightarrow> id_cert cert | Some v \<Rightarrow> v),
       userId = (case userId_p data of None \<Rightarrow> userId cert | Some v \<Rightarrow> v),
       name = (case name_p data of None \<Rightarrow> name cert | Some v \<Rightarrow> v),
       issuingOrganization =
         (case issuingOrganization_p data of None \<Rightarrow> issuingOrganization cert | Some v \<Rightarrow> v),
       credentialId = (case credentialId_p data of None \<Rightarrow> credentialId cert | Some v \<Rightarrow> v),
       issueDate = (case issueDate_p data of None \<Rightarrow> issueDate cert | Some v \<Rightarrow> v),
       expirationDate = (case expirationDate_p data of None \<Rightarrow> expirationDate cert | Some v \<Rightarrow> v),
       certificateUrl = (case certificateUrl_p data of None \<Rightarrow> certificateUrl cert | Some v \<Rightarrow> v),
       notes_cert = (case notes_p data of None \<Rightarrow> notes_cert cert | Some v \<Rightarrow> v) \<rparr>"

definition updateCertification ::
  "Certification list slot \<Rightarrow> string \<Rightarrow> PartialCertification
     \<Rightarrow> (error + Certification) \<times> Certification list slot" where
  "updateCertification store i data =
     (let (certs, store1) = loadCerts store in
      case findIndex (\<lambda>c. id_cert c = i) certs of
        None \<Rightarrow> (Inl (Error ''Not found''), store1)
      | Some idx \<Rightarrow>
          (let certs' = certs[idx := spread (certs ! idx) data]
           in (Inr (certs' ! idx), saveCerts certs')))"

text \<open>
  \<^verbatim>\<open>deleteCertification\<close> has no \<^verbatim>\<open>throw\<close>: its result is always \<open>Inr ()\<close>, the
  resolved \<^verbatim>\<open>Promise<void>\<close>.
\<close>

definition deleteCertification ::
  "Certification list slot \<Rightarrow> string \<Rightarrow> (error + unit) \<times> Certification list slot" where
  "deleteCertification store i =
     (let (certs, store1) = loadCerts store;
          newCerts = filter (\<lambda>c. id_cert c \<noteq> i) certs
      in (Inr (), saveCerts newCerts))"

text \<open>The partial that binds no key, and the one that binds only \<^verbatim>\<open>expirationDate\<close>.\<close>

definition emptyPartial :: PartialCertification where
  "emptyPartial =
     \<lparr> id_p = None, userId_p = None, name_p = None, issuingOrganization_p = None,
       credentialId_p = None, issueDate_p = None, expirationDate_p = None,
       certificateUrl_p = None, notes_p = None \<rparr>"

definition onlyExpirationDate :: "string \<Rightarrow> PartialCertification" where
  "onlyExpirationDate x = emptyPartial\<lparr>expirationDate_p := Some x\<rparr>"

section \<open>The user repository\<close>

text \<open>
  Modelled from the spec: the type \<^verbatim>\<open>User\<close>, whose declaration in
  \<^verbatim>\<open>@shared/schema\<close> is not among the sources; its fields are those the data model
  lists and \<^verbatim>\<open>client/src/lib/localAuth.ts\<close> writes. The stored record is
  \<^verbatim>\<open>StoredUser = User & { password?: string }\<close>; one record type serves both, and an
  object without the key \<^verbatim>\<open>password\<close> has \<open>password = None\<close>.
\<close>

datatype Role = Admin_role | User_role

record User =
  id_user :: string
  username :: string
  fullName :: string
  email :: string
  role :: Role
  password :: "string option"

text \<open>
  \<^verbatim>\<open>const { password, ...publicUser } = user\<close>: the same object without the key
  \<^verbatim>\<open>password\<close>.
\<close>

definition publicUser :: "User \<Rightarrow> User" where
  "publicUser user = user\<lparr>password := None\<rparr>"

text \<open>
  \<^verbatim>\<open>Record<string, StoredUser>\<close> is an association list in insertion order. Reading
  \<^verbatim>\<open>users[k]\<close> finds an own key, or else a member that every object inherits from
  \<^verbatim>\<open>Object.prototype\<close> (a truthy value that is no user and has no \<^verbatim>\<open>password\<close>), or
  else \<^verbatim>\<open>undefined\<close>. JavaScript enumerates keys that are canonical array indices
  (a username such as \<^verbatim>\<open>7\<close>) before the others, in numeric order; the list keeps
  insertion order throughout, so for a store with such a username the order of the
  list, and of what \<^verbatim>\<open>Object.values\<close> gives, is not the program's. The lookups, the
  number of keys and the records themselves are the program's.
\<close>

definition objectPrototypeKeys :: "string list" where
  "objectPrototypeKeys =
     [''constructor'', ''__proto__'', ''hasOwnProperty'', ''isPrototypeOf'',
      ''propertyIsEnumerable'', ''toLocaleString'', ''toString'', ''valueOf'',
      ''__defineGetter__'', ''__defineSetter__'', ''__lookupGetter__'', ''__lookupSetter__'']"

datatype property = Own User | Inherited | Undefined

definition getProperty :: "(string \<times> User) list \<Rightarrow> string \<Rightarrow> property" where
  "getProperty users k =
     (case map_of users k of
        Some u \<Rightarrow> Own u
      | None \<Rightarrow> if k \<in> set objectPrototypeKeys then Inherited else Undefined)"

definition demo :: "(string \<times> User) list" where
  "demo =
     [(''admin'', \<lparr> id_user = ''1'', username = ''admin'', fullName = ''Administrator'',
                    email = ''admin@example.com'', role = Admin_role, password = Some ''admin123'' \<rparr>),
      (''john'', \<lparr> id_user = ''2'', username = ''john'', fullName = ''John Doe'',
                   email = ''john@example.com'', role = User_role, password = Some ''user123'' \<rparr>)]"

definition loadUsers :: "(string \<times> User) list slot \<Rightarrow> (string \<times> User) list \<times> (string \<times> User) list slot" where
  "loadUsers store =
     (case store of
        NoItem \<Rightarrow> (demo, Item demo)
      | Garbage \<Rightarrow> ([], Garbage)
      | Item users \<Rightarrow> (users, Item users))"

definition saveUsers :: "(string \<times> User) list \<Rightarrow> (string \<times> User) list slot" where
  "saveUsers users = Item users"

text \<open>\<^verbatim>\<open>String(n)\<close> for a natural number: its decimal digits.\<close>

fun String_of_nat :: "nat \<Rightarrow> string" where
  "String_of_nat n =
     (if n < 10 then [char_of (48 + n)]
      else String_of_nat (n div 10) @ [char_of (48 + n mod 10)])"

definition registerLocal ::
  "(string \<times> User) list slot \<Rightarrow> string \<Rightarrow> string \<Rightarrow> string \<Rightarrow> string
     \<Rightarrow> (error + User) \<times> (string \<times> User) list slot" where
  "registerLocal store username_d password_d fullName_d email_d =
     (let (users, store1) = loadUsers store in
      if getProperty users username_d \<noteq> Undefined
      then (Inl (Error ''409: Username already exists''), store1)
      else
        (let i = String_of_nat (length users + 1);
             user = \<lparr> id_user = i, username = username_d, fullName = fullName_d,
                      email = email_d, role = User_role, password = Some password_d \<rparr>;
             users' = AList.update username_d user users
         in (Inr (publicUser user), saveUsers users')))"

definition loginLocal ::
  "(string \<times> User) list slot \<Rightarrow> string \<Rightarrow> string \<Rightarrow> (error + User) \<times> (string \<times> User) list slot" where
  "loginLocal store username_d password_d =
     (let (users, store1) = loadUsers store in
      case getProperty users username_d of
        Undefined \<Rightarrow> (Inl (Error ''401: Invalid credentials''), store1)
      | Inherited \<Rightarrow> (Inl (Error ''401: Invalid credentials''), store1)
      | Own user \<Rightarrow>
          if password user \<noteq> Some password_d
          then (Inl (Error ''401: Invalid credentials''), store1)
          else (Inr (publicUser user), store1))"

definition getAllUsers :: "(string \<times> User) list slot \<Rightarrow> User list \<times> (string \<times> User) list slot" where
  "getAllUsers store =
     (let (users, store1) = loadUsers store
      in (map (\<lambda>u. publicUser u) (map snd users), store1))"

section \<open>The demo server's login route\<close>

text \<open>
  The route \<^verbatim>\<open>app.post("/api/auth/login")\<close> of the express server with an in-memory
  user table. Its records carry no password. The two fields of the request body may be
  missing (\<open>None\<close>); \<^verbatim>\<open>!v\<close> holds for a missing and for an empty field. The answer
  is the HTTP status with the JSON body; \<^verbatim>\<open>res.json(users[username])\<close> sends the user
  when the key is an own key of the table.
\<close>

definition serverUsers :: "(string \<times> User) list" where
  "serverUsers =
     [(''admin'', \<lparr> id_user = ''1'', username = ''admin'', fullName = ''Administrator'',
                    email = ''admin@example.com'', role = Admin_role, password = None \<rparr>),
      (''john'', \<lparr> id_user = ''2'', username = ''john'', fullName = ''John Doe'',
                   email = ''john@example.com'', role = User_role, password = None \<rparr>)]"

datatype body = JsonUser User | JsonError string | JsonOther

definition json :: "property \<Rightarrow> body" where
  "json v = (case v of Own u \<Rightarrow> JsonUser u | Inherited \<Rightarrow> JsonOther | Undefined \<Rightarrow> JsonOther)"

definition falsy :: "string option \<Rightarrow> bool" where
  "falsy v = (case v of None \<Rightarrow> True | Some s \<Rightarrow> s = [])"

definition serverLogin :: "(string \<times> User) list \<Rightarrow> string option \<Rightarrow> string option \<Rightarrow> nat \<times> body" where
  "serverLogin users username_b password_b =
     (if falsy username_b \<or> falsy password_b then (400, JsonError ''Missing login fields'')
      else if (username_b = Some ''admin'' \<and> password_b = Some ''admin123'') \<or>
              (username_b = Some ''john'' \<and> password_b = Some ''user123'')
      then (200, json (getProperty users (the username_b)))
      else if getProperty users (the username_b) \<noteq> Undefined
      then (200, json (getProperty users (the username_b)))
      else (401, JsonError ''Invalid credentials''))"

section \<open>Sample data\<close>

definition sampleCert :: Certification where
  "sampleCert =
     \<lparr> id_cert = ''c-1'', userId = ''2'', name = ''AWS Solutions Architect'',
       issuingOrganization = ''Amazon'', credentialId = Some ''AWS-123'',
       issueDate = ''2024-11-01'', expirationDate = ''2026-11-01'',
       certificateUrl = None, notes_cert = None \<rparr>"

definition otherCert :: Certification where
  "otherCert =
     \<lparr> id_cert = ''c-2'', userId = ''1'', name = ''PMP'',
       issuingOrganization = ''PMI'', credentialId = None,
       issueDate = ''2023-05-01'', expirationDate = ''2027-05-01'',
       certificateUrl = Some ''https://example.com/pmp'', notes_cert = Some ''renewed once'' \<rparr>"

text \<open>
  A store reached by creating one certification from a partial without \<open>userId\<close>.
\<close>

definition storeWithUnownedCert :: "Certification list slot" where
  "storeWithUnownedCert =
     snd (createCertification NoItem ''u-1'' ''2026-11-01'' ''2026-11-01'' emptyPartial)"

section \<open>Status buckets: what the classifier and the views compute\<close>

declare String_of_nat.simps [simp del]

text \<open>The classifier implements the boundary table of the five buckets exactly.\<close>

lemma getStatusInfo_cut_points:
  "(getStatusInfo d = Expired) = (d < 0)"
  "(getStatusInfo d = Critical) = (0 \<le> d \<and> d \<le> 30)"
  "(getStatusInfo d = Warning) = (31 \<le> d \<and> d \<le> 60)"
  "(getStatusInfo d = Soon) = (61 \<le> d \<and> d \<le> 90)"
  "(getStatusInfo d = Active) = (d > 90)"
  by (auto simp: getStatusInfo_def)

lemma getStatusInfo_boundaries:
  "getStatusInfo (-1) = Expired" "getStatusInfo 0 = Critical"
  "getStatusInfo 30 = Critical" "getStatusInfo 31 = Warning"
  "getStatusInfo 60 = Warning" "getStatusInfo 61 = Soon"
  "getStatusInfo 90 = Soon" "getStatusInfo 91 = Active"
  by (simp_all add: getStatusInfo_def)

text \<open>The renewals page sorts the certifications into the classifier's own buckets.\<close>

lemma categorizedCerts_classifier:
  "expired_cc (categorizedCerts daysUntil cs) =
     filter (\<lambda>c. getStatusInfo (daysUntil (expirationDate c)) = Expired) cs"
  "critical_cc (categorizedCerts daysUntil cs) =
     filter (\<lambda>c. getStatusInfo (daysUntil (expirationDate c)) = Critical) cs"
  "warning_cc (categorizedCerts daysUntil cs) =
     filter (\<lambda>c. getStatusInfo (daysUntil (expirationDate c)) = Warning) cs"
  "upcoming_cc (categorizedCerts daysUntil cs) =
     filter (\<lambda>c. getStatusInfo (daysUntil (expirationDate c)) = Soon) cs"
  by (auto simp: categorizedCerts_def getStatusInfo_cut_points Let_def intro!: filter_cong)

text \<open>
  Claim C1. The classifier returns one of five buckets with the cut points
  \<open>days < 0\<close>, \<open>0..30\<close>, \<open>31..60\<close>, \<open>61..90\<close>, \<open>> 90\<close>, and every counting view
  derives its buckets from the same cut points. The classifier and the renewals page do
  (the three lemmas above). The stat cards of the admin expiring page do not: their
  first bucket is \<open>days > 0 \<and> days \<le> 30\<close>. For a certification with \<open>days = 0\<close> the
  classifier answers \<open>Critical\<close> and the renewals page lists it as critical, while the
  stat cards count it in no bucket at all.
\<close>

theorem day_zero_missing_from_expiring_stats:
  "getStatusInfo 0 = Critical \<and>
   critical_cc (categorizedCerts (\<lambda>d. 0) [sampleCert]) = [sampleCert] \<and>
   within30 (expiringStats (\<lambda>d. 0) [sampleCert]) = 0 \<and>
   within60 (expiringStats (\<lambda>d. 0) [sampleCert]) = 0 \<and>
   within90 (expiringStats (\<lambda>d. 0) [sampleCert]) = 0 \<and>
   expired_es (expiringStats (\<lambda>d. 0) [sampleCert]) = 0"
  by (simp add: getStatusInfo_def categorizedCerts_def expiringStats_def)

lemma includes_str_empty [simp]: "includes_str s []"
  by (cases s) simp_all

lemma matchesSearch_empty [simp]: "matchesSearch [] cert"
  by (simp add: matchesSearch_def toLowerCase_def)

text \<open>The filter's expiring bucket is the days from 1 to 90; day 0 is outside.\<close>

lemma statusMatches_expiring_strict:
  "statusMatches Expiring_f days = (1 \<le> days \<and> days \<le> 90)"
  by (auto simp: statusMatches_def)

text \<open>
  Claim C2. The status filter's expiring bucket holds every certification with
  \<open>0 \<le> days \<le> 90\<close>, so that a certification with \<open>days \<ge> 0\<close> is in the active or
  in the expiring bucket, day 0 counting as expiring. The filter tests
  \<open>days > 0 \<and> days \<le> 90\<close>: with an empty search text a certification with \<open>days = 0\<close>
  passes none of the filters active, expiring and expired (it shows under "all" only),
  and the dashboard counts it in the total and in none of its three buckets. The
  renewals page, with \<open>days \<ge> 0\<close>, does list it.
\<close>

theorem day_zero_missing_from_status_filter:
  "filteredCertifications (\<lambda>d. 0) [] Expiring_f [sampleCert] = [] \<and>
   filteredCertifications (\<lambda>d. 0) [] Active_f [sampleCert] = [] \<and>
   filteredCertifications (\<lambda>d. 0) [] Expired_f [sampleCert] = [] \<and>
   filteredCertifications (\<lambda>d. 0) [] All_f [sampleCert] = [sampleCert] \<and>
   expiringSoon (dashboardStats (\<lambda>d. 0) [sampleCert]) = 0 \<and>
   active_ds (dashboardStats (\<lambda>d. 0) [sampleCert]) = 0 \<and>
   expired_ds (dashboardStats (\<lambda>d. 0) [sampleCert]) = 0 \<and>
   total (dashboardStats (\<lambda>d. 0) [sampleCert]) = 1 \<and>
   critical_cc (categorizedCerts (\<lambda>d. 0) [sampleCert]) = [sampleCert]"
  by (simp add: filteredCertifications_def statusMatches_def dashboardStats_def categorizedCerts_def)

section \<open>The certification repository: create\<close>

lemma loadCerts_simps [simp]:
  "loadCerts NoItem = ([], Item [])"
  "loadCerts Garbage = ([], Garbage)"
  "loadCerts (Item certs) = (certs, Item certs)"
  by (simp_all add: loadCerts_def)

lemma fst_loadCerts_again [simp]: "fst (loadCerts (snd (loadCerts store))) = fst (loadCerts store)"
  by (cases store) simp_all

lemma createCertification_result:
  "createCertification store uuid t1 t2 data =
     (let cert = \<lparr> id_cert = uuid,
                   userId = orDefault (userId_p data) [],
                   name = orDefault (name_p data) [],
                   issuingOrganization = orDefault (issuingOrganization_p data) [],
                   credentialId = Some (orDefault (readOptional (credentialId_p data)) []),
                   issueDate = orDefault (issueDate_p data) t1,
                   expirationDate = orDefault (expirationDate_p data) t2,
                   certificateUrl = None,
                   notes_cert = None \<rparr>
      in (cert, Item (fst (getAllCertifications store) @ [cert])))"
  by (cases store) (simp_all add: createCertification_def getAllCertifications_def saveCerts_def Let_def)

text \<open>The created record is the last one of the list afterwards, under the identifier drawn.\<close>

lemma createCertification_listed:
  "fst (getAllCertifications (snd (createCertification store uuid t1 t2 data))) =
     fst (getAllCertifications store) @ [fst (createCertification store uuid t1 t2 data)]"
  by (simp add: createCertification_result Let_def getAllCertifications_def)

lemma createCertification_id:
  "id_cert (fst (createCertification store uuid t1 t2 data)) = uuid"
  by (simp add: createCertification_result Let_def)

lemma orDefault_empty: "orDefault v [] = (case v of None \<Rightarrow> [] | Some s \<Rightarrow> s)"
  by (simp add: orDefault_def split: option.splits)

lemma createCertification_credentialId_default:
  "readOptional (credentialId_p data) = None \<Longrightarrow>
   credentialId (fst (createCertification store uuid t1 t2 data)) = Some []"
  by (simp add: createCertification_result Let_def orDefault_empty)

text \<open>
  Claim C3. \<open>create\<close> returns a record with a fresh identifier, the list afterwards
  contains it, and each optional field missing from the partial (credentialId,
  certificateUrl, notes) is stored as the empty string. The record is listed and
  \<open>credentialId\<close> is defaulted (the lemmas above), but the stored record never has the
  keys \<open>certificateUrl\<close> and \<open>notes\<close>: they are absent, not empty strings, for every
  input, and a URL and notes that the partial does supply are dropped.
\<close>

theorem createCertification_drops_optional_fields:
  "certificateUrl (fst (createCertification store uuid todayIssue todayExpiration data)) = None \<and>
   notes_cert (fst (createCertification store uuid todayIssue todayExpiration data)) = None \<and>
   fst (getAllCertifications (snd (createCertification (Item []) ''u-1'' ''2026-11-01'' ''2026-11-01''
         (emptyPartial\<lparr>name_p := Some ''PMP'', certificateUrl_p := Some (Some ''https://example.com/pmp''),
                        notes_p := Some (Some ''renewed once'')\<rparr>)))) =
     [\<lparr> id_cert = ''u-1'', userId = [], name = ''PMP'', issuingOrganization = [],
        credentialId = Some [], issueDate = ''2026-11-01'', expirationDate = ''2026-11-01'',
        certificateUrl = None, notes_cert = None \<rparr>]"
  by (simp add: createCertification_result Let_def getAllCertifications_def emptyPartial_def
       orDefault_def readOptional_def)

section \<open>The certification repository: update\<close>

lemma findIndex_Some:
  "findIndex P xs = Some i \<Longrightarrow> i < length xs \<and> P (xs ! i) \<and> List.find P xs = Some (xs ! i)"
  by (induction xs arbitrary: i) (auto split: if_splits)

lemma findIndex_None: "(findIndex P xs = None) = (List.find P xs = None)"
  by (induction xs) auto

lemma find_findIndex:
  "List.find P xs = Some y \<Longrightarrow> \<exists>i. findIndex P xs = Some i \<and> xs ! i = y"
  by (induction xs) (auto split: if_splits)

lemma find_list_update:
  "findIndex P xs = Some i \<Longrightarrow> P y \<Longrightarrow> List.find P (xs[i := y]) = Some y"
  by (induction xs arbitrary: i) (auto split: if_splits)

lemma updateCertification_found:
  assumes "findIndex (\<lambda>c. id_cert c = i) (fst (getAllCertifications store)) = Some idx"
  shows "updateCertification store i data =
           (Inr (spread (fst (getAllCertifications store) ! idx) data),
            Item ((fst (getAllCertifications store))
                    [idx := spread (fst (getAllCertifications store) ! idx) data]))"
proof -
  have "idx < length (fst (getAllCertifications store))"
    using findIndex_Some [OF assms] by simp
  then show ?thesis
    using assms
    by (cases store) (simp_all add: updateCertification_def getAllCertifications_def saveCerts_def Let_def)
qed

lemma updateCertification_missing:
  assumes "findIndex (\<lambda>c. id_cert c = i) (fst (getAllCertifications store)) = None"
  shows "updateCertification store i data =
           (Inl (Error ''Not found''), snd (getAllCertifications store))"
  using assms
  by (cases store) (simp_all add: updateCertification_def getAllCertifications_def)

lemma spread_onlyExpirationDate:
  "spread cert (onlyExpirationDate x) = cert\<lparr>expirationDate := x\<rparr>"
  by (simp add: spread_def onlyExpirationDate_def emptyPartial_def)

text \<open>
  Claim C4. In a store that holds a certification under \<open>i\<close>, updating \<open>i\<close> with
  a partial that binds only \<open>expirationDate\<close> to \<open>x\<close> answers the old record with
  the new expiration date; reading \<open>i\<close> afterwards (the first record of the list with
  that identifier) gives the same; every other field keeps its value; and the list
  afterwards is the old list with that one position replaced, so every other record
  is as before. When no record has the identifier, the update fails with the error
  "Not found" and leaves the store as a plain read leaves it: the list is the same, and
  a key that held a list holds the same list.
\<close>

theorem updateCertification_expirationDate_merge:
  "(List.find (\<lambda>c. id_cert c = i) (fst (getAllCertifications store)) = Some old \<longrightarrow>
      fst (updateCertification store i (onlyExpirationDate x)) = Inr (old\<lparr>expirationDate := x\<rparr>) \<and>
      List.find (\<lambda>c. id_cert c = i)
        (fst (getAllCertifications (snd (updateCertification store i (onlyExpirationDate x))))) =
        Some (old\<lparr>expirationDate := x\<rparr>) \<and>
      expirationDate (old\<lparr>expirationDate := x\<rparr>) = x \<and>
      id_cert (old\<lparr>expirationDate := x\<rparr>) = id_cert old \<and>
      userId (old\<lparr>expirationDate := x\<rparr>) = userId old \<and>
      name (old\<lparr>expirationDate := x\<rparr>) = name old \<and>
      issuingOrganization (old\<lparr>expirationDate := x\<rparr>) = issuingOrganization old \<and>
      issueDate (old\<lparr>expirationDate := x\<rparr>) = issueDate old \<and>
      credentialId (old\<lparr>expirationDate := x\<rparr>) = credentialId old \<and>
      certificateUrl (old\<lparr>expirationDate := x\<rparr>) = certificateUrl old \<and>
      notes_cert (old\<lparr>expirationDate := x\<rparr>) = notes_cert old \<and>
      (\<exists>idx. findIndex (\<lambda>c. id_cert c = i) (fst (getAllCertifications store)) = Some idx \<and>
             idx < length (fst (getAllCertifications store)) \<and>
             fst (getAllCertifications store) ! idx = old \<and>
             fst (getAllCertifications (snd (updateCertification store i (onlyExpirationDate x)))) =
               (fst (getAllCertifications store))[idx := old\<lparr>expirationDate := x\<rparr>])) \<and>
   (List.find (\<lambda>c. id_cert c = i) (fst (getAllCertifications store)) = None \<longrightarrow>
      updateCertification store i data = (Inl (Error ''Not found''), snd (getAllCertifications store)) \<and>
      fst (getAllCertifications (snd (updateCertification store i data))) =
        fst (getAllCertifications store) \<and>
      (\<forall>certs. store = Item certs \<longrightarrow> snd (updateCertification store i data) = Item certs))"
proof (intro conjI impI)
  assume f: "List.find (\<lambda>c. id_cert c = i) (fst (getAllCertifications store)) = Some old"
  from find_findIndex [OF f] obtain idx where
    idx: "findIndex (\<lambda>c. id_cert c = i) (fst (getAllCertifications store)) = Some idx"
    and old: "fst (getAllCertifications store) ! idx = old"
    by auto
  have len: "idx < length (fst (getAllCertifications store))" and idc: "id_cert old = i"
    using findIndex_Some [OF idx] old by auto
  have upd: "updateCertification store i (onlyExpirationDate x) =
      (Inr (old\<lparr>expirationDate := x\<rparr>),
       Item ((fst (getAllCertifications store))[idx := old\<lparr>expirationDate := x\<rparr>]))"
    using updateCertification_found [OF idx] old by (simp add: spread_onlyExpirationDate)
  show "fst (updateCertification store i (onlyExpirationDate x)) = Inr (old\<lparr>expirationDate := x\<rparr>)"
    by (simp add: upd)
  show "List.find (\<lambda>c. id_cert c = i)
        (fst (getAllCertifications (snd (updateCertification store i (onlyExpirationDate x))))) =
        Some (old\<lparr>expirationDate := x\<rparr>)"
    using find_list_update [OF idx, of "old\<lparr>expirationDate := x\<rparr>"] idc
    by (simp add: upd getAllCertifications_def)
  show "\<exists>idx. findIndex (\<lambda>c. id_cert c = i) (fst (getAllCertifications store)) = Some idx \<and>
             idx < length (fst (getAllCertifications store)) \<and>
             fst (getAllCertifications store) ! idx = old \<and>
             fst (getAllCertifications (snd (updateCertification store i (onlyExpirationDate x)))) =
               (fst (getAllCertifications store))[idx := old\<lparr>expirationDate := x\<rparr>]"
    using idx len old by (simp add: upd getAllCertifications_def)
next
  assume n: "List.find (\<lambda>c. id_cert c = i) (fst (getAllCertifications store)) = None"
  then have m: "updateCertification store i data =
      (Inl (Error ''Not found''), snd (getAllCertifications store))"
    by (simp add: updateCertification_missing findIndex_None)
  show "updateCertification store i data =
      (Inl (Error ''Not found''), snd (getAllCertifications store))"
    by (rule m)
  show "fst (getAllCertifications (snd (updateCertification store i data))) =
        fst (getAllCertifications store)"
    by (simp add: m getAllCertifications_def)
  show "\<forall>certs. store = Item certs \<longrightarrow> snd (updateCertification store i data) = Item certs"
    using m by (auto simp: getAllCertifications_def)
qed simp_all

theorem updateCertification_expirationDate_merge_witness:
  "List.find (\<lambda>c. id_cert c = ''c-2'') (fst (getAllCertifications (Item [sampleCert, otherCert]))) =
     Some otherCert \<and>
   updateCertification (Item [sampleCert, otherCert]) ''c-2'' (onlyExpirationDate ''2030-01-01'') =
     (Inr (otherCert\<lparr>expirationDate := ''2030-01-01''\<rparr>),
      Item [sampleCert, otherCert\<lparr>expirationDate := ''2030-01-01''\<rparr>]) \<and>
   List.find (\<lambda>c. id_cert c = ''c-2'')
     (fst (getAllCertifications (snd (updateCertification (Item [sampleCert, otherCert]) ''c-2''
        (onlyExpirationDate ''2030-01-01''))))) = Some (otherCert\<lparr>expirationDate := ''2030-01-01''\<rparr>) \<and>
   List.find (\<lambda>c. id_cert c = ''c-9'') (fst (getAllCertifications (Item [sampleCert, otherCert]))) = None \<and>
   updateCertification (Item [sampleCert, otherCert]) ''c-9'' (onlyExpirationDate ''2030-01-01'') =
     (Inl (Error ''Not found''), Item [sampleCert, otherCert])"
proof -
  have f: "List.find (\<lambda>c. id_cert c = ''c-2'') (fst (getAllCertifications (Item [sampleCert, otherCert]))) =
     Some otherCert"
    by (simp add: getAllCertifications_def sampleCert_def otherCert_def)
  have n: "List.find (\<lambda>c. id_cert c = ''c-9'') (fst (getAllCertifications (Item [sampleCert, otherCert]))) = None"
    by (simp add: getAllCertifications_def sampleCert_def otherCert_def)
  have u: "updateCertification (Item [sampleCert, otherCert]) ''c-2'' (onlyExpirationDate ''2030-01-01'') =
     (Inr (otherCert\<lparr>expirationDate := ''2030-01-01''\<rparr>),
      Item [sampleCert, otherCert\<lparr>expirationDate := ''2030-01-01''\<rparr>])"
    by (simp add: updateCertification_def saveCerts_def sampleCert_def otherCert_def
          spread_onlyExpirationDate)
  from updateCertification_expirationDate_merge
         [of "''c-2''" "Item [sampleCert, otherCert]" otherCert "''2030-01-01''"]
       updateCertification_expirationDate_merge
         [of "''c-9''" "Item [sampleCert, otherCert]" _ _ "onlyExpirationDate ''2030-01-01''"]
       f n u
  show ?thesis by (simp add: getAllCertifications_def)
qed


section \<open>The certification repository: update of any key, delete, filter by owner\<close>

lemma spread_keys:
  "id_p data = Some v1 \<Longrightarrow> id_cert (spread cert data) = v1"
  "userId_p data = Some v2 \<Longrightarrow> userId (spread cert data) = v2"
  "name_p data = Some v3 \<Longrightarrow> name (spread cert data) = v3"
  "issuingOrganization_p data = Some v4 \<Longrightarrow> issuingOrganization (spread cert data) = v4"
  "credentialId_p data = Some w5 \<Longrightarrow> credentialId (spread cert data) = w5"
  "issueDate_p data = Some v6 \<Longrightarrow> issueDate (spread cert data) = v6"
  "expirationDate_p data = Some v7 \<Longrightarrow> expirationDate (spread cert data) = v7"
  "certificateUrl_p data = Some w8 \<Longrightarrow> certificateUrl (spread cert data) = w8"
  "notes_p data = Some w9 \<Longrightarrow> notes_cert (spread cert data) = w9"
  by (simp_all add: spread_def)

text \<open>
  Claim C10. \<open>update\<close> copies every key present in the partial onto the stored
  record, \<open>userId\<close> and \<open>id\<close> included: whenever the store holds a record under
  \<open>i\<close>, the update succeeds, answers the spread of the partial over that record and
  stores it at the record's position, and each of the nine fields takes the partial's
  value when the partial binds its key. No field is protected. The instance below
  reassigns a certification from user 2 to user 1 and, in a second update, changes its
  identifier.
\<close>

theorem updateCertification_overwrites_every_key:
  "List.find (\<lambda>c. id_cert c = i) (fst (getAllCertifications store)) = Some old \<longrightarrow>
     fst (updateCertification store i data) = Inr (spread old data) \<and>
     (\<exists>idx. findIndex (\<lambda>c. id_cert c = i) (fst (getAllCertifications store)) = Some idx \<and>
            fst (getAllCertifications (snd (updateCertification store i data))) =
              (fst (getAllCertifications store))[idx := spread old data]) \<and>
     (\<forall>v. id_p data = Some v \<longrightarrow> id_cert (spread old data) = v) \<and>
     (\<forall>v. userId_p data = Some v \<longrightarrow> userId (spread old data) = v) \<and>
     (\<forall>v. name_p data = Some v \<longrightarrow> name (spread old data) = v) \<and>
     (\<forall>v. issuingOrganization_p data = Some v \<longrightarrow> issuingOrganization (spread old data) = v) \<and>
     (\<forall>w. credentialId_p data = Some w \<longrightarrow> credentialId (spread old data) = w) \<and>
     (\<forall>v. issueDate_p data = Some v \<longrightarrow> issueDate (spread old data) = v) \<and>
     (\<forall>v. expirationDate_p data = Some v \<longrightarrow> expirationDate (spread old data) = v) \<and>
     (\<forall>w. certificateUrl_p data = Some w \<longrightarrow> certificateUrl (spread old data) = w) \<and>
     (\<forall>w. notes_p data = Some w \<longrightarrow> notes_cert (spread old data) = w)"
proof
  assume f: "List.find (\<lambda>c. id_cert c = i) (fst (getAllCertifications store)) = Some old"
  from find_findIndex [OF f] obtain idx where
    idx: "findIndex (\<lambda>c. id_cert c = i) (fst (getAllCertifications store)) = Some idx"
    and old: "fst (getAllCertifications store) ! idx = old"
    by auto
  have upd: "updateCertification store i data =
      (Inr (spread old data), Item ((fst (getAllCertifications store))[idx := spread old data]))"
    using updateCertification_found [OF idx] old by simp
  have res: "fst (updateCertification store i data) = Inr (spread old data)"
    by (simp add: upd)
  have lst: "\<exists>idx. findIndex (\<lambda>c. id_cert c = i) (fst (getAllCertifications store)) = Some idx \<and>
            fst (getAllCertifications (snd (updateCertification store i data))) =
              (fst (getAllCertifications store))[idx := spread old data]"
    using idx by (simp add: upd getAllCertifications_def)
  show "fst (updateCertification store i data) = Inr (spread old data) \<and>
     (\<exists>idx. findIndex (\<lambda>c. id_cert c = i) (fst (getAllCertifications store)) = Some idx \<and>
            fst (getAllCertifications (snd (updateCertification store i data))) =
              (fst (getAllCertifications store))[idx := spread old data]) \<and>
     (\<forall>v. id_p data = Some v \<longrightarrow> id_cert (spread old data) = v) \<and>
     (\<forall>v. userId_p data = Some v \<longrightarrow> userId (spread old data) = v) \<and>
     (\<forall>v. name_p data = Some v \<longrightarrow> name (spread old data) = v) \<and>
     (\<forall>v. issuingOrganization_p data = Some v \<longrightarrow> issuingOrganization (spread old data) = v) \<and>
     (\<forall>w. credentialId_p data = Some w \<longrightarrow> credentialId (spread old data) = w) \<and>
     (\<forall>v. issueDate_p data = Some v \<longrightarrow> issueDate (spread old data) = v) \<and>
     (\<forall>v. expirationDate_p data = Some v \<longrightarrow> expirationDate (spread old data) = v) \<and>
     (\<forall>w. certificateUrl_p data = Some w \<longrightarrow> certificateUrl (spread old data) = w) \<and>
     (\<forall>w. notes_p data = Some w \<longrightarrow> notes_cert (spread old data) = w)"
    using res lst by (simp add: spread_keys)
qed

theorem updateCertification_overwrites_every_key_witness:
  "List.find (\<lambda>c. id_cert c = ''c-1'') (fst (getAllCertifications (Item [sampleCert, otherCert]))) =
     Some sampleCert \<and>
   userId sampleCert = ''2'' \<and>
   fst (updateCertification (Item [sampleCert, otherCert]) ''c-1'' (emptyPartial\<lparr>userId_p := Some ''1''\<rparr>)) =
     Inr (sampleCert\<lparr>userId := ''1''\<rparr>) \<and>
   fst (getCertificationsByUser
          (snd (updateCertification (Item [sampleCert, otherCert]) ''c-1'' (emptyPartial\<lparr>userId_p := Some ''1''\<rparr>)))
          (Some ''2'')) = [] \<and>
   fst (getCertificationsByUser
          (snd (updateCertification (Item [sampleCert, otherCert]) ''c-1'' (emptyPartial\<lparr>userId_p := Some ''1''\<rparr>)))
          (Some ''1'')) = [sampleCert\<lparr>userId := ''1''\<rparr>, otherCert] \<and>
   fst (updateCertification (Item [sampleCert, otherCert]) ''c-1'' (emptyPartial\<lparr>id_p := Some ''c-7''\<rparr>)) =
     Inr (sampleCert\<lparr>id_cert := ''c-7''\<rparr>)"
proof -
  have f: "List.find (\<lambda>c. id_cert c = ''c-1'') (fst (getAllCertifications (Item [sampleCert, otherCert]))) =
     Some sampleCert"
    by (simp add: getAllCertifications_def sampleCert_def)
  have s1: "spread sampleCert (emptyPartial\<lparr>userId_p := Some ''1''\<rparr>) = sampleCert\<lparr>userId := ''1''\<rparr>"
    by (simp add: spread_def emptyPartial_def)
  have s2: "spread sampleCert (emptyPartial\<lparr>id_p := Some ''c-7''\<rparr>) = sampleCert\<lparr>id_cert := ''c-7''\<rparr>"
    by (simp add: spread_def emptyPartial_def)
  have i0: "findIndex (\<lambda>c. id_cert c = ''c-1'') [sampleCert, otherCert] = Some 0"
    by (simp add: sampleCert_def)
  have a: "fst (updateCertification (Item [sampleCert, otherCert]) ''c-1'' (emptyPartial\<lparr>userId_p := Some ''1''\<rparr>)) =
     Inr (sampleCert\<lparr>userId := ''1''\<rparr>)"
    using updateCertification_overwrites_every_key
      [of "''c-1''" "Item [sampleCert, otherCert]" sampleCert "emptyPartial\<lparr>userId_p := Some ''1''\<rparr>",
       THEN mp, OF f, THEN conjunct1]
    by (simp only: s1)
  have b: "fst (updateCertification (Item [sampleCert, otherCert]) ''c-1'' (emptyPartial\<lparr>id_p := Some ''c-7''\<rparr>)) =
     Inr (sampleCert\<lparr>id_cert := ''c-7''\<rparr>)"
    using updateCertification_overwrites_every_key
      [of "''c-1''" "Item [sampleCert, otherCert]" sampleCert "emptyPartial\<lparr>id_p := Some ''c-7''\<rparr>",
       THEN mp, OF f, THEN conjunct1]
    by (simp only: s2)
  have st: "snd (updateCertification (Item [sampleCert, otherCert]) ''c-1'' (emptyPartial\<lparr>userId_p := Some ''1''\<rparr>)) =
     Item [sampleCert\<lparr>userId := ''1''\<rparr>, otherCert]"
    using updateCertification_found [of "''c-1''" "Item [sampleCert, otherCert]" 0 "emptyPartial\<lparr>userId_p := Some ''1''\<rparr>"] i0
    by (simp add: getAllCertifications_def s1)
  have u2: "userId sampleCert = ''2''" and u1: "userId otherCert = ''1''"
    by (simp_all add: sampleCert_def otherCert_def)
  have g2: "fst (getCertificationsByUser (Item [sampleCert\<lparr>userId := ''1''\<rparr>, otherCert]) (Some ''2'')) = []"
    by (simp add: getCertificationsByUser_def u1)
  have g1: "fst (getCertificationsByUser (Item [sampleCert\<lparr>userId := ''1''\<rparr>, otherCert]) (Some ''1'')) =
      [sampleCert\<lparr>userId := ''1''\<rparr>, otherCert]"
    by (simp add: getCertificationsByUser_def u1)
  show ?thesis
    by (simp only: f a b st g1 g2 u2 simp_thms)
qed

lemma deleteCertification_result:
  "deleteCertification store i =
     (Inr (), Item (filter (\<lambda>c. id_cert c \<noteq> i) (fst (getAllCertifications store))))"
  by (cases store) (simp_all add: deleteCertification_def getAllCertifications_def saveCerts_def)

lemma find_None_filter: "List.find P xs = None \<Longrightarrow> filter (\<lambda>c. \<not> P c) xs = xs"
  by (induction xs) (auto split: if_splits)

lemma find_filter_out: "List.find P (filter (\<lambda>c. \<not> P c) xs) = None"
  by (induction xs) auto

text \<open>
  Claim C7. \<open>delete\<close> never throws; afterwards the list is the old list without the
  records of that identifier, so no record of the list has it; deleting the same
  identifier a second time answers without error and leaves the store exactly as the
  first deletion left it; and deleting an identifier that no record has leaves the list
  as it was.
\<close>

theorem deleteCertification_idempotent:
  "fst (deleteCertification store i) = Inr () \<and>
   fst (getAllCertifications (snd (deleteCertification store i))) =
     filter (\<lambda>c. id_cert c \<noteq> i) (fst (getAllCertifications store)) \<and>
   (\<forall>c \<in> set (fst (getAllCertifications (snd (deleteCertification store i)))). id_cert c \<noteq> i) \<and>
   List.find (\<lambda>c. id_cert c = i) (fst (getAllCertifications (snd (deleteCertification store i)))) = None \<and>
   deleteCertification (snd (deleteCertification store i)) i =
     (Inr (), snd (deleteCertification store i)) \<and>
   (List.find (\<lambda>c. id_cert c = i) (fst (getAllCertifications store)) = None \<longrightarrow>
      fst (getAllCertifications (snd (deleteCertification store i))) = fst (getAllCertifications store))"
  by (simp add: deleteCertification_result getAllCertifications_def find_filter_out find_None_filter)

theorem deleteCertification_idempotent_witness:
  "deleteCertification (Item [sampleCert, otherCert]) ''c-1'' = (Inr (), Item [otherCert]) \<and>
   deleteCertification (Item [otherCert]) ''c-1'' = (Inr (), Item [otherCert]) \<and>
   List.find (\<lambda>c. id_cert c = ''c-1'') (fst (getAllCertifications (Item [otherCert]))) = None \<and>
   fst (getAllCertifications (snd (deleteCertification (Item [otherCert]) ''c-1''))) = [otherCert]"
proof -
  have d: "deleteCertification (Item [sampleCert, otherCert]) ''c-1'' = (Inr (), Item [otherCert])"
    by (simp add: deleteCertification_result getAllCertifications_def sampleCert_def otherCert_def)
  have n: "List.find (\<lambda>c. id_cert c = ''c-1'') (fst (getAllCertifications (Item [otherCert]))) = None"
    by (simp add: getAllCertifications_def otherCert_def)
  show ?thesis
    using deleteCertification_idempotent [of "Item [sampleCert, otherCert]" "''c-1''"]
      deleteCertification_idempotent [of "Item [otherCert]" "''c-1''"] n
    by (simp add: d getAllCertifications_def)
qed

lemma getCertificationsByUser_result:
  "getCertificationsByUser store userId_arg =
     ((case userId_arg of
         None \<Rightarrow> []
       | Some u \<Rightarrow> if u = [] then [] else filter (\<lambda>c. userId c = u) (fst (getAllCertifications store))),
      snd (getAllCertifications store))"
  by (cases store; cases userId_arg) (simp_all add: getCertificationsByUser_def getAllCertifications_def)

text \<open>
  Claim C8, as stated for every user id: it fails for the empty string. A certification
  created without a \<open>userId\<close> is stored with \<open>userId = ""\<close>; asking for the
  certifications of \<open>""\<close> answers the empty list, because the guard \<^verbatim>\<open>!userId\<close>
  holds for the empty string, while the list does hold a record whose \<open>userId\<close> is
  \<open>""\<close>.
\<close>

theorem getCertificationsByUser_empty_id_counterexample:
  "fst (getCertificationsByUser storeWithUnownedCert (Some [])) \<noteq>
     filter (\<lambda>c. userId c = []) (fst (getAllCertifications storeWithUnownedCert))"
  by (simp add: storeWithUnownedCert_def getCertificationsByUser_result createCertification_result
        getAllCertifications_def emptyPartial_def orDefault_def Let_def)

text \<open>
  Claim C8, amended. For every non-empty user id \<open>u\<close>, \<open>listByUser u\<close> is the list
  filtered by \<open>userId = u\<close>, in the list's order: every record returned has that
  \<open>userId\<close> and every stored record with that \<open>userId\<close> is returned. For an absent
  or null argument and for the empty string the answer is the empty list, not an error.
  The store is left as a plain read leaves it.
\<close>

theorem getCertificationsByUser_exact:
  "(u \<noteq> [] \<longrightarrow>
      fst (getCertificationsByUser store (Some u)) =
        filter (\<lambda>c. userId c = u) (fst (getAllCertifications store)) \<and>
      (\<forall>c \<in> set (fst (getCertificationsByUser store (Some u))). userId c = u) \<and>
      (\<forall>c \<in> set (fst (getAllCertifications store)).
          userId c = u \<longrightarrow> c \<in> set (fst (getCertificationsByUser store (Some u))))) \<and>
   fst (getCertificationsByUser store None) = [] \<and>
   fst (getCertificationsByUser store (Some [])) = [] \<and>
   snd (getCertificationsByUser store userId_arg) = snd (getAllCertifications store)"
  by (simp add: getCertificationsByUser_result)

theorem getCertificationsByUser_exact_witness:
  "''2'' \<noteq> [] \<and>
   fst (getCertificationsByUser (Item [sampleCert, otherCert]) (Some ''2'')) = [sampleCert] \<and>
   filter (\<lambda>c. userId c = ''2'') (fst (getAllCertifications (Item [sampleCert, otherCert]))) = [sampleCert] \<and>
   fst (getCertificationsByUser (Item [sampleCert, otherCert]) None) = [] \<and>
   fst (getCertificationsByUser (Item [sampleCert, otherCert]) (Some [])) = []"
proof -
  have f: "filter (\<lambda>c. userId c = ''2'') (fst (getAllCertifications (Item [sampleCert, otherCert]))) = [sampleCert]"
    by (simp add: getAllCertifications_def sampleCert_def otherCert_def)
  show ?thesis
    using getCertificationsByUser_exact [of "''2''" "Item [sampleCert, otherCert]"] f
    by simp
qed


section \<open>The user repository: register, login, list\<close>

lemma loadUsers_simps [simp]:
  "loadUsers NoItem = (demo, Item demo)"
  "loadUsers Garbage = ([], Garbage)"
  "loadUsers (Item users) = (users, Item users)"
  by (simp_all add: loadUsers_def)

lemma loadUsers_again [simp]: "loadUsers (snd (loadUsers store)) = loadUsers store"
  by (cases store) simp_all

lemma getProperty_Own [simp]: "(getProperty users k = Own u) = (map_of users k = Some u)"
  by (simp add: getProperty_def split: option.splits)

lemma getProperty_known: "map_of users k = Some u \<Longrightarrow> getProperty users k \<noteq> Undefined"
  by (simp add: getProperty_def)

lemma getProperty_Undefined: "getProperty users k = Undefined \<Longrightarrow> map_of users k = None"
  by (simp add: getProperty_def split: option.splits)

lemma registerLocal_result:
  "registerLocal store u p f e =
     (if getProperty (fst (loadUsers store)) u \<noteq> Undefined
      then (Inl (Error ''409: Username already exists''), snd (loadUsers store))
      else (Inr \<lparr> id_user = String_of_nat (length (fst (loadUsers store)) + 1), username = u,
                  fullName = f, email = e, role = User_role, password = None \<rparr>,
            Item (AList.update u
                    \<lparr> id_user = String_of_nat (length (fst (loadUsers store)) + 1), username = u,
                      fullName = f, email = e, role = User_role, password = Some p \<rparr>
                    (fst (loadUsers store)))))"
  by (cases store) (simp_all add: registerLocal_def saveUsers_def publicUser_def Let_def)

lemma loginLocal_result:
  "loginLocal store u p =
     (case map_of (fst (loadUsers store)) u of
        None \<Rightarrow> (Inl (Error ''401: Invalid credentials''), snd (loadUsers store))
      | Some user \<Rightarrow>
          if password user = Some p then (Inr (publicUser user), snd (loadUsers store))
          else (Inl (Error ''401: Invalid credentials''), snd (loadUsers store)))"
  by (cases store)
     (simp_all add: loginLocal_def getProperty_def split: option.splits)

lemma getAllUsers_result:
  "getAllUsers store = (map (\<lambda>kv. publicUser (snd kv)) (fst (loadUsers store)), snd (loadUsers store))"
  by (cases store) (simp_all add: getAllUsers_def)

lemma map_of_update_same: "map_of (AList.update k v al) k = Some v"
  by (simp add: update_conv')

text \<open>
  Claim C6. Whatever the store and whatever the outcome of a first registration of a
  username, a second registration of the same username fails with the error
  "409: Username already exists" and leaves the store exactly as the first call left
  it. When the first call succeeded, the store still holds under that username the
  record the first call created, with the first call's name, email and password.
\<close>

theorem registerLocal_twice_conflict:
  "registerLocal (snd (registerLocal store u p1 f1 e1)) u p2 f2 e2 =
     (Inl (Error ''409: Username already exists''), snd (registerLocal store u p1 f1 e1)) \<and>
   (\<forall>r. fst (registerLocal store u p1 f1 e1) = Inr r \<longrightarrow>
        username r = u \<and> fullName r = f1 \<and> email r = e1 \<and>
        map_of (fst (loadUsers (snd (registerLocal (snd (registerLocal store u p1 f1 e1)) u p2 f2 e2)))) u =
          Some (r\<lparr>password := Some p1\<rparr>))"
proof (cases "getProperty (fst (loadUsers store)) u \<noteq> Undefined")
  case True
  then have first: "registerLocal store u p1 f1 e1 =
      (Inl (Error ''409: Username already exists''), snd (loadUsers store))"
    by (simp add: registerLocal_result)
  have second: "registerLocal (snd (loadUsers store)) u p2 f2 e2 =
      (Inl (Error ''409: Username already exists''), snd (loadUsers store))"
    using True by (simp add: registerLocal_result)
  show ?thesis by (simp add: first second)
next
  case False
  define user where "user = \<lparr> id_user = String_of_nat (length (fst (loadUsers store)) + 1),
      username = u, fullName = f1, email = e1, role = User_role, password = Some p1 \<rparr>"
  have first: "registerLocal store u p1 f1 e1 =
      (Inr (user\<lparr>password := None\<rparr>), Item (AList.update u user (fst (loadUsers store))))"
    using False by (simp add: registerLocal_result user_def)
  have known: "getProperty (AList.update u user (fst (loadUsers store))) u \<noteq> Undefined"
    by (rule getProperty_known) (rule map_of_update_same)
  have second: "registerLocal (Item (AList.update u user (fst (loadUsers store)))) u p2 f2 e2 =
      (Inl (Error ''409: Username already exists''), Item (AList.update u user (fst (loadUsers store))))"
    using known by (simp add: registerLocal_result)
  show ?thesis
    by (simp add: first second map_of_update_same) (simp add: user_def)
qed

lemma demo_amy: "getProperty demo ''amy'' = Undefined"
  by (simp add: getProperty_def demo_def objectPrototypeKeys_def)

lemma String_of_nat_3: "String_of_nat (Suc (Suc (Suc 0))) = ''3''"
  by code_simp

theorem registerLocal_twice_conflict_witness:
  "registerLocal NoItem ''amy'' ''pw'' ''Amy'' ''amy@example.com'' =
     (Inr \<lparr> id_user = ''3'', username = ''amy'', fullName = ''Amy'', email = ''amy@example.com'',
            role = User_role, password = None \<rparr>,
      Item (demo @ [(''amy'', \<lparr> id_user = ''3'', username = ''amy'', fullName = ''Amy'',
                              email = ''amy@example.com'', role = User_role, password = Some ''pw'' \<rparr>)])) \<and>
   registerLocal (snd (registerLocal NoItem ''amy'' ''pw'' ''Amy'' ''amy@example.com''))
       ''amy'' ''other'' ''Amy Two'' ''two@example.com'' =
     (Inl (Error ''409: Username already exists''),
      Item (demo @ [(''amy'', \<lparr> id_user = ''3'', username = ''amy'', fullName = ''Amy'',
                              email = ''amy@example.com'', role = User_role, password = Some ''pw'' \<rparr>)]))"
proof -
  have first: "registerLocal NoItem ''amy'' ''pw'' ''Amy'' ''amy@example.com'' =
     (Inr \<lparr> id_user = ''3'', username = ''amy'', fullName = ''Amy'', email = ''amy@example.com'',
            role = User_role, password = None \<rparr>,
      Item (demo @ [(''amy'', \<lparr> id_user = ''3'', username = ''amy'', fullName = ''Amy'',
                              email = ''amy@example.com'', role = User_role, password = Some ''pw'' \<rparr>)]))"
    by (simp add: registerLocal_result demo_amy) (simp add: demo_def String_of_nat_3)
  show ?thesis
    using registerLocal_twice_conflict
      [of NoItem "''amy''" "''pw''" "''Amy''" "''amy@example.com''" "''other''" "''Amy Two''" "''two@example.com''",
       THEN conjunct1]
    by (simp only: first snd_conv simp_thms)
qed

text \<open>
  Claim C9. No read operation returns a password. The user that \<open>register\<close> answers
  has no password although the record it stored has the password supplied; the user
  that \<open>login\<close> answers is the stored record without its password; and \<open>listUsers\<close>
  answers the stored records with the password removed from each.
\<close>

theorem no_password_returned:
  "(\<forall>r. fst (registerLocal store u p f e) = Inr r \<longrightarrow>
        password r = None \<and>
        (\<exists>stored. map_of (fst (loadUsers (snd (registerLocal store u p f e)))) u = Some stored \<and>
                  password stored = Some p \<and> r = publicUser stored)) \<and>
   (\<forall>r. fst (loginLocal store u p) = Inr r \<longrightarrow>
        password r = None \<and>
        (\<exists>stored. map_of (fst (loadUsers store)) u = Some stored \<and>
                  password stored = Some p \<and> r = publicUser stored)) \<and>
   fst (getAllUsers store) = map (\<lambda>kv. publicUser (snd kv)) (fst (loadUsers store)) \<and>
   (\<forall>x \<in> set (fst (getAllUsers store)). password x = None)"
proof (intro conjI allI impI ballI)
  fix r assume "fst (registerLocal store u p f e) = Inr r"
  then have ok: "getProperty (fst (loadUsers store)) u = Undefined"
    and r: "r = \<lparr> id_user = String_of_nat (length (fst (loadUsers store)) + 1), username = u,
                  fullName = f, email = e, role = User_role, password = None \<rparr>"
    by (auto simp: registerLocal_result split: if_splits)
  show "password r = None" by (simp add: r)
  show "\<exists>stored. map_of (fst (loadUsers (snd (registerLocal store u p f e)))) u = Some stored \<and>
                  password stored = Some p \<and> r = publicUser stored"
    by (simp add: registerLocal_result ok map_of_update_same r publicUser_def)
next
  fix r assume a: "fst (loginLocal store u p) = Inr r"
  then obtain stored where st: "map_of (fst (loadUsers store)) u = Some stored"
    and pw: "password stored = Some p" and r: "r = publicUser stored"
    by (auto simp: loginLocal_result split: option.splits if_splits)
  show "password r = None" by (simp add: r publicUser_def)
  show "\<exists>stored. map_of (fst (loadUsers store)) u = Some stored \<and>
                  password stored = Some p \<and> r = publicUser stored"
    using st pw r by simp
next
  show "fst (getAllUsers store) = map (\<lambda>kv. publicUser (snd kv)) (fst (loadUsers store))"
    by (simp add: getAllUsers_result)
next
  fix x assume "x \<in> set (fst (getAllUsers store))"
  then show "password x = None"
    by (auto simp: getAllUsers_result publicUser_def)
qed

lemma login_john: "loginLocal NoItem ''john'' ''user123'' =
     (Inr \<lparr> id_user = ''2'', username = ''john'', fullName = ''John Doe'',
            email = ''john@example.com'', role = User_role, password = None \<rparr>, Item demo)"
  by (simp add: loginLocal_result) (simp add: demo_def publicUser_def)

theorem no_password_returned_witness:
  "fst (loginLocal NoItem ''john'' ''user123'') =
     Inr \<lparr> id_user = ''2'', username = ''john'', fullName = ''John Doe'',
           email = ''john@example.com'', role = User_role, password = None \<rparr> \<and>
   map_of (fst (loadUsers NoItem)) ''john'' =
     Some \<lparr> id_user = ''2'', username = ''john'', fullName = ''John Doe'',
            email = ''john@example.com'', role = User_role, password = Some ''user123'' \<rparr> \<and>
   fst (registerLocal NoItem ''amy'' ''pw'' ''Amy'' ''amy@example.com'') =
     Inr \<lparr> id_user = ''3'', username = ''amy'', fullName = ''Amy'', email = ''amy@example.com'',
           role = User_role, password = None \<rparr> \<and>
   fst (getAllUsers NoItem) =
     [\<lparr> id_user = ''1'', username = ''admin'', fullName = ''Administrator'',
        email = ''admin@example.com'', role = Admin_role, password = None \<rparr>,
      \<lparr> id_user = ''2'', username = ''john'', fullName = ''John Doe'',
        email = ''john@example.com'', role = User_role, password = None \<rparr>] \<and>
   list_all (\<lambda>x. password x = None) (fst (getAllUsers NoItem))"
proof -
  have l: "fst (loginLocal NoItem ''john'' ''user123'') =
     Inr \<lparr> id_user = ''2'', username = ''john'', fullName = ''John Doe'',
           email = ''john@example.com'', role = User_role, password = None \<rparr>"
    by (simp add: login_john)
  have m: "map_of (fst (loadUsers NoItem)) ''john'' =
     Some \<lparr> id_user = ''2'', username = ''john'', fullName = ''John Doe'',
            email = ''john@example.com'', role = User_role, password = Some ''user123'' \<rparr>"
    by (simp add: demo_def)
  have g: "fst (registerLocal NoItem ''amy'' ''pw'' ''Amy'' ''amy@example.com'') =
     Inr \<lparr> id_user = ''3'', username = ''amy'', fullName = ''Amy'', email = ''amy@example.com'',
           role = User_role, password = None \<rparr>"
    by (simp add: registerLocal_result demo_amy) (simp add: demo_def String_of_nat_3)
  note t = no_password_returned [of NoItem "''john''" "''user123''" "''Amy''" "''amy@example.com''"]
  have a: "fst (getAllUsers NoItem) = map (\<lambda>kv. publicUser (snd kv)) (fst (loadUsers NoItem))"
    using t by (rule_tac conjunct1 [OF conjunct2 [OF conjunct2]])
  have b: "\<forall>x \<in> set (fst (getAllUsers NoItem)). password x = None"
    using t by (rule_tac conjunct2 [OF conjunct2 [OF conjunct2]])
  have a': "fst (getAllUsers NoItem) =
     [\<lparr> id_user = ''1'', username = ''admin'', fullName = ''Administrator'',
        email = ''admin@example.com'', role = Admin_role, password = None \<rparr>,
      \<lparr> id_user = ''2'', username = ''john'', fullName = ''John Doe'',
        email = ''john@example.com'', role = User_role, password = None \<rparr>]"
    unfolding a by (simp add: demo_def publicUser_def)
  have b': "list_all (\<lambda>x. password x = None) (fst (getAllUsers NoItem))"
    using b by (simp only: list_all_iff)
  show ?thesis
    using l m g a' b' by (intro conjI)
qed

section \<open>Login\<close>

text \<open>
  Claim C5, as stated for every login of the repository: it fails on the demo server's
  route. The server's table holds \<open>john\<close> without a password, the route's own demo
  password for \<open>john\<close> is \<open>user123\<close>, and a login of \<open>john\<close> with the password
  \<open>wrong\<close> is answered with status 200 and the user: the route accepts every
  registered username with any non-empty password, as its comment says.
\<close>

theorem serverLogin_wrong_password_counterexample:
  "map_of serverUsers ''john'' =
     Some \<lparr> id_user = ''2'', username = ''john'', fullName = ''John Doe'',
            email = ''john@example.com'', role = User_role, password = None \<rparr> \<and>
   ''wrong'' \<noteq> ''user123'' \<and>
   serverLogin serverUsers (Some ''john'') (Some ''wrong'') =
     (200, JsonUser \<lparr> id_user = ''2'', username = ''john'', fullName = ''John Doe'',
                      email = ''john@example.com'', role = User_role, password = None \<rparr>)"
  by (simp add: serverLogin_def serverUsers_def falsy_def json_def getProperty_def)

text \<open>The route's answers 400 and 401.\<close>

lemma serverLogin_missing:
  "falsy ub \<or> falsy pb \<Longrightarrow> serverLogin users ub pb = (400, JsonError ''Missing login fields'')"
  by (simp add: serverLogin_def)

lemma serverLogin_401:
  "(serverLogin users (Some u) (Some p) = (401, JsonError ''Invalid credentials'')) =
     (u \<noteq> [] \<and> p \<noteq> [] \<and> getProperty users u = Undefined \<and>
      \<not> ((u = ''admin'' \<and> p = ''admin123'') \<or> (u = ''john'' \<and> p = ''user123'')))"
  by (auto simp: serverLogin_def falsy_def)

lemma serverLogin_401_unknown:
  "fst (serverLogin users (Some u) (Some p)) = 401 \<Longrightarrow> map_of users u = None"
  by (auto simp: serverLogin_def falsy_def getProperty_def split: if_splits option.splits)

text \<open>
  Claim C5, amended. The login of the local user repository fails exactly when the
  username is not a key of the store or the stored record's password (which may be
  absent) differs from the password supplied, always with the error
  "401: Invalid credentials"; when it succeeds it answers the stored record of that
  username without its password, and the stored password equals the one supplied. The
  demo server's route is different by design: for a username of its table it answers
  200 with the user for every non-empty password; it answers 400 when the username or
  the password is missing or empty; and it answers 401 exactly when both are non-empty,
  the username is neither a key of its table nor a member that every object inherits,
  and the pair is not one of the two demo pairs, so only for a username that is not in
  its table.
\<close>

theorem loginLocal_checks_password:
  "((\<exists>err. fst (loginLocal store u p) = Inl err) =
      (map_of (fst (loadUsers store)) u = None \<or>
       (\<exists>user. map_of (fst (loadUsers store)) u = Some user \<and> password user \<noteq> Some p))) \<and>
   (\<forall>err. fst (loginLocal store u p) = Inl err \<longrightarrow> err = Error ''401: Invalid credentials'') \<and>
   (\<forall>r. fst (loginLocal store u p) = Inr r \<longrightarrow>
        (\<exists>user. map_of (fst (loadUsers store)) u = Some user \<and> password user = Some p \<and>
                r = publicUser user)) \<and>
   (\<forall>user. map_of (fst (loadUsers store)) u = Some user \<and> password user = Some p \<longrightarrow>
        loginLocal store u p = (Inr (publicUser user), snd (loadUsers store))) \<and>
   (\<forall>user. map_of users u = Some user \<and> u \<noteq> [] \<and> p \<noteq> [] \<longrightarrow>
        serverLogin users (Some u) (Some p) = (200, JsonUser user)) \<and>
   (\<forall>ub pb. falsy ub \<or> falsy pb \<longrightarrow>
        serverLogin users ub pb = (400, JsonError ''Missing login fields'')) \<and>
   ((serverLogin users (Some u) (Some p) = (401, JsonError ''Invalid credentials'')) =
      (u \<noteq> [] \<and> p \<noteq> [] \<and> getProperty users u = Undefined \<and>
       \<not> ((u = ''admin'' \<and> p = ''admin123'') \<or> (u = ''john'' \<and> p = ''user123'')))) \<and>
   (fst (serverLogin users (Some u) (Some p)) = 401 \<longrightarrow> map_of users u = None)"
proof (intro conjI allI impI)
  show "(\<exists>err. fst (loginLocal store u p) = Inl err) =
      (map_of (fst (loadUsers store)) u = None \<or>
       (\<exists>user. map_of (fst (loadUsers store)) u = Some user \<and> password user \<noteq> Some p))"
    by (auto simp: loginLocal_result split: option.splits if_splits)
next
  fix err assume "fst (loginLocal store u p) = Inl err"
  then show "err = Error ''401: Invalid credentials''"
    by (auto simp: loginLocal_result split: option.splits if_splits)
next
  fix r assume "fst (loginLocal store u p) = Inr r"
  then show "\<exists>user. map_of (fst (loadUsers store)) u = Some user \<and> password user = Some p \<and>
                r = publicUser user"
    by (auto simp: loginLocal_result split: option.splits if_splits)
next
  fix user assume "map_of (fst (loadUsers store)) u = Some user \<and> password user = Some p"
  then show "loginLocal store u p = (Inr (publicUser user), snd (loadUsers store))"
    by (simp add: loginLocal_result)
next
  fix user assume "map_of users u = Some user \<and> u \<noteq> [] \<and> p \<noteq> []"
  then show "serverLogin users (Some u) (Some p) = (200, JsonUser user)"
    by (simp add: serverLogin_def falsy_def json_def getProperty_def)
next
  fix ub pb assume "falsy ub \<or> falsy pb"
  then show "serverLogin users ub pb = (400, JsonError ''Missing login fields'')"
    by (rule serverLogin_missing)
next
  show "(serverLogin users (Some u) (Some p) = (401, JsonError ''Invalid credentials'')) =
      (u \<noteq> [] \<and> p \<noteq> [] \<and> getProperty users u = Undefined \<and>
       \<not> ((u = ''admin'' \<and> p = ''admin123'') \<or> (u = ''john'' \<and> p = ''user123'')))"
    by (rule serverLogin_401)
next
  assume "fst (serverLogin users (Some u) (Some p)) = 401"
  then show "map_of users u = None"
    by (rule serverLogin_401_unknown)
qed

theorem loginLocal_checks_password_witness:
  "map_of (fst (loadUsers NoItem)) ''john'' =
     Some \<lparr> id_user = ''2'', username = ''john'', fullName = ''John Doe'',
            email = ''john@example.com'', role = User_role, password = Some ''user123'' \<rparr> \<and>
   loginLocal NoItem ''john'' ''user123'' =
     (Inr \<lparr> id_user = ''2'', username = ''john'', fullName = ''John Doe'',
            email = ''john@example.com'', role = User_role, password = None \<rparr>, Item demo) \<and>
   fst (loginLocal NoItem ''john'' ''wrong'') = Inl (Error ''401: Invalid credentials'') \<and>
   map_of (fst (loadUsers NoItem)) ''nobody'' = None \<and>
   fst (loginLocal NoItem ''nobody'' ''user123'') = Inl (Error ''401: Invalid credentials'') \<and>
   serverLogin serverUsers (Some ''john'') (Some ''anything'') =
     (200, JsonUser \<lparr> id_user = ''2'', username = ''john'', fullName = ''John Doe'',
                      email = ''john@example.com'', role = User_role, password = None \<rparr>) \<and>
   falsy None \<and>
   serverLogin serverUsers None (Some ''user123'') = (400, JsonError ''Missing login fields'') \<and>
   falsy (Some []) \<and>
   serverLogin serverUsers (Some ''john'') (Some []) = (400, JsonError ''Missing login fields'') \<and>
   getProperty serverUsers ''nobody'' = Undefined \<and>
   serverLogin serverUsers (Some ''nobody'') (Some ''user123'') = (401, JsonError ''Invalid credentials'') \<and>
   map_of serverUsers ''nobody'' = None"
proof -
  have m: "map_of (fst (loadUsers NoItem)) ''john'' =
     Some \<lparr> id_user = ''2'', username = ''john'', fullName = ''John Doe'',
            email = ''john@example.com'', role = User_role, password = Some ''user123'' \<rparr>"
    by (simp add: demo_def)
  have n: "map_of (fst (loadUsers NoItem)) ''nobody'' = None"
    by (simp add: demo_def)
  have pw: "password \<lparr> id_user = ''2'', username = ''john'', fullName = ''John Doe'',
            email = ''john@example.com'', role = User_role, password = Some ''user123'' \<rparr> = Some ''user123''"
       and pw': "password \<lparr> id_user = ''2'', username = ''john'', fullName = ''John Doe'',
            email = ''john@example.com'', role = User_role, password = Some ''user123'' \<rparr> \<noteq> Some ''wrong''"
    by simp_all
  have ok: "loginLocal NoItem ''john'' ''user123'' =
     (Inr \<lparr> id_user = ''2'', username = ''john'', fullName = ''John Doe'',
            email = ''john@example.com'', role = User_role, password = None \<rparr>, Item demo)"
    using loginLocal_checks_password [of NoItem "''john''" "''user123''" serverUsers,
            THEN conjunct2, THEN conjunct2, THEN conjunct2, THEN conjunct1, rule_format,
            OF conjI, OF m pw]
    by (simp add: publicUser_def)
  have e2: "\<exists>err. fst (loginLocal NoItem ''john'' ''wrong'') = Inl err"
    using loginLocal_checks_password [of NoItem "''john''" "''wrong''" serverUsers,
            THEN conjunct1, THEN iffD2] m pw'
    by blast
  have bad: "fst (loginLocal NoItem ''john'' ''wrong'') = Inl (Error ''401: Invalid credentials'')"
    using loginLocal_checks_password [of NoItem "''john''" "''wrong''" serverUsers,
            THEN conjunct2, THEN conjunct1] e2
    by blast
  have e3: "\<exists>err. fst (loginLocal NoItem ''nobody'' ''user123'') = Inl err"
    using loginLocal_checks_password [of NoItem "''nobody''" "''user123''" serverUsers,
            THEN conjunct1, THEN iffD2] n
    by blast
  have unk: "fst (loginLocal NoItem ''nobody'' ''user123'') = Inl (Error ''401: Invalid credentials'')"
    using loginLocal_checks_password [of NoItem "''nobody''" "''user123''" serverUsers,
            THEN conjunct2, THEN conjunct1] e3
    by blast
  have sj: "map_of serverUsers ''john'' =
     Some \<lparr> id_user = ''2'', username = ''john'', fullName = ''John Doe'',
            email = ''john@example.com'', role = User_role, password = None \<rparr> \<and>
     ''john'' \<noteq> [] \<and> ''anything'' \<noteq> []"
    by (simp add: serverUsers_def)
  have s200: "serverLogin serverUsers (Some ''john'') (Some ''anything'') =
     (200, JsonUser \<lparr> id_user = ''2'', username = ''john'', fullName = ''John Doe'',
                      email = ''john@example.com'', role = User_role, password = None \<rparr>)"
    using loginLocal_checks_password [of NoItem "''john''" "''anything''" serverUsers,
            THEN conjunct2, THEN conjunct2, THEN conjunct2, THEN conjunct2, THEN conjunct1,
            rule_format, OF sj] .
  have f1: "falsy None" and f2: "falsy (Some [])"
    by (simp_all add: falsy_def)
  note c6 = loginLocal_checks_password [of NoItem "''john''" "''user123''" serverUsers,
            THEN conjunct2, THEN conjunct2, THEN conjunct2, THEN conjunct2, THEN conjunct2,
            THEN conjunct1, rule_format]
  have s400a: "serverLogin serverUsers None (Some ''user123'') = (400, JsonError ''Missing login fields'')"
    by (rule c6) (rule disjI1 [OF f1])
  have s400b: "serverLogin serverUsers (Some ''john'') (Some []) = (400, JsonError ''Missing login fields'')"
    by (rule c6) (rule disjI2 [OF f2])
  have gp: "getProperty serverUsers ''nobody'' = Undefined"
    by (simp add: getProperty_def serverUsers_def objectPrototypeKeys_def)
  have s401: "serverLogin serverUsers (Some ''nobody'') (Some ''user123'') =
      (401, JsonError ''Invalid credentials'')"
    using loginLocal_checks_password [of NoItem "''nobody''" "''user123''" serverUsers,
            THEN conjunct2, THEN conjunct2, THEN conjunct2, THEN conjunct2, THEN conjunct2,
            THEN conjunct2, THEN conjunct1, THEN iffD2] gp
    by simp
  have f401: "fst (serverLogin serverUsers (Some ''nobody'') (Some ''user123'')) = 401"
    by (simp add: s401)
  have sn: "map_of serverUsers ''nobody'' = None"
    using loginLocal_checks_password [of NoItem "''nobody''" "''user123''" serverUsers,
            THEN conjunct2, THEN conjunct2, THEN conjunct2, THEN conjunct2, THEN conjunct2,
            THEN conjunct2, THEN conjunct2, THEN mp, OF f401] .
  show ?thesis
    using m n ok bad unk s200 f1 s400a f2 s400b gp s401 sn by (intro conjI)
qed

end
